theory Spec2Isabelle
  imports Main "HOL-Library.Word"
begin

unbundle bit_operations_syntax

section \<open>Strings, bytes and the platform's encoders\<close>

text \<open>
  The server actions of \<^verbatim>\<open>src/lib/index.ts\<close> build their requests out of JavaScript
  strings and Node buffers. A JavaScript string is modelled as a \<^typ>\<open>string\<close> whose
  characters are the code units U+0000 to U+00FF (every value the handshake produces itself
  is ASCII); a buffer is a list of bytes. Strings with code units above U+00FF are outside
  the model (there \<^verbatim>\<open>btoa\<close> throws).
\<close>

type_synonym byte = "8 word"
type_synonym u32 = "32 word"

text \<open>\<^verbatim>\<open>Buffer.from(s, 'utf8')\<close>, which is what \<^verbatim>\<open>hash.update(s)\<close> feeds to the
  digest: one byte below U+0080, two bytes from U+0080 to U+00FF.\<close>

definition utf8 :: "string \<Rightarrow> byte list" where
  "utf8 s = concat (map (\<lambda>c. if (of_char c :: nat) < 128 then [of_char c]
                              else [0xC0 + of_char c div 64, 0x80 + of_char c mod 64]) s)"

definition b64_std :: string where
  "b64_std = ''ABCDEFGHIJKLMNOPQRSTUVWXYZabcdefghijklmnopqrstuvwxyz0123456789+/''"

definition b64_url :: string where
  "b64_url = ''ABCDEFGHIJKLMNOPQRSTUVWXYZabcdefghijklmnopqrstuvwxyz0123456789-_''"

text \<open>Base64 over an alphabet of 64 characters, three bytes to four characters; the last
  group of one or two bytes is padded with \<^verbatim>\<open>=\<close> only when \<open>pad\<close> is set.\<close>

fun base64 :: "string \<Rightarrow> bool \<Rightarrow> byte list \<Rightarrow> string" where
  "base64 abc pad [] = []"
| "base64 abc pad [a] =
     [abc ! (unat a div 4), abc ! (unat a mod 4 * 16)] @ (if pad then ''=='' else [])"
| "base64 abc pad [a, b] =
     [abc ! (unat a div 4), abc ! (unat a mod 4 * 16 + unat b div 16),
      abc ! (unat b mod 16 * 4)] @ (if pad then ''='' else [])"
| "base64 abc pad (a # b # c # rest) =
     [abc ! (unat a div 4), abc ! (unat a mod 4 * 16 + unat b div 16),
      abc ! (unat b mod 16 * 4 + unat c div 64), abc ! (unat c mod 64)] @ base64 abc pad rest"

text \<open>\<^verbatim>\<open>buf.toString('base64url')\<close>: the URL-safe alphabet, no padding.\<close>

definition base64url :: "byte list \<Rightarrow> string" where
  "base64url bs = base64 b64_url False bs"

text \<open>\<^verbatim>\<open>btoa(s)\<close>: every code unit is one byte; standard alphabet, padded.\<close>

definition btoa :: "string \<Rightarrow> string" where
  "btoa s = base64 b64_std True (map of_char s)"




text \<open>\<^verbatim>\<open>encodeURI(s)\<close>: the reserved and unreserved characters of a URI and \<^verbatim>\<open>#\<close>
  stay; every other character becomes the percent-escapes of its UTF-8 bytes, in upper-case
  hexadecimal.\<close>

definition uri_unescaped :: string where
  "uri_unescaped =
     ''ABCDEFGHIJKLMNOPQRSTUVWXYZabcdefghijklmnopqrstuvwxyz0123456789'' @
     '';/?:@&=+$,#-_.!~*()'' @ [CHR 0x27]"

definition percent :: "byte \<Rightarrow> string" where
  "percent b = [CHR ''%'', ''0123456789ABCDEF'' ! (unat b div 16), ''0123456789ABCDEF'' ! (unat b mod 16)]"

definition encodeURI :: "string \<Rightarrow> string" where
  "encodeURI s =
     concat (map (\<lambda>c. if c \<in> set uri_unescaped then [c] else concat (map percent (utf8 [c]))) s)"

subsection \<open>SHA-256\<close>

text \<open>\<^verbatim>\<open>createHash('sha256').update(s).digest()\<close> is Node's SHA-256 (FIPS 180-4) of the
  UTF-8 bytes of \<open>s\<close>, a buffer of 32 bytes. It is written out here so that the PKCE
  challenge is a value that can be computed.\<close>

definition rotr :: "nat \<Rightarrow> u32 \<Rightarrow> u32" where
  "rotr n x = drop_bit n x OR push_bit (32 - n) x"

definition Ch :: "u32 \<Rightarrow> u32 \<Rightarrow> u32 \<Rightarrow> u32" where
  "Ch x y z = (x AND y) XOR (NOT x AND z)"

definition Maj :: "u32 \<Rightarrow> u32 \<Rightarrow> u32 \<Rightarrow> u32" where
  "Maj x y z = (x AND y) XOR (x AND z) XOR (y AND z)"

definition Sigma0 :: "u32 \<Rightarrow> u32" where
  "Sigma0 x = rotr 2 x XOR rotr 13 x XOR rotr 22 x"

definition Sigma1 :: "u32 \<Rightarrow> u32" where
  "Sigma1 x = rotr 6 x XOR rotr 11 x XOR rotr 25 x"

definition sigma0 :: "u32 \<Rightarrow> u32" where
  "sigma0 x = rotr 7 x XOR rotr 18 x XOR drop_bit 3 x"

definition sigma1 :: "u32 \<Rightarrow> u32" where
  "sigma1 x = rotr 17 x XOR rotr 19 x XOR drop_bit 10 x"

definition K256 :: "u32 list" where
  "K256 =
    [0x428A2F98, 0x71374491, 0xB5C0FBCF, 0xE9B5DBA5, 0x3956C25B, 0x59F111F1, 0x923F82A4, 0xAB1C5ED5,
     0xD807AA98, 0x12835B01, 0x243185BE, 0x550C7DC3, 0x72BE5D74, 0x80DEB1FE, 0x9BDC06A7, 0xC19BF174,
     0xE49B69C1, 0xEFBE4786, 0x0FC19DC6, 0x240CA1CC, 0x2DE92C6F, 0x4A7484AA, 0x5CB0A9DC, 0x76F988DA,
     0x983E5152, 0xA831C66D, 0xB00327C8, 0xBF597FC7, 0xC6E00BF3, 0xD5A79147, 0x06CA6351, 0x14292967,
     0x27B70A85, 0x2E1B2138, 0x4D2C6DFC, 0x53380D13, 0x650A7354, 0x766A0ABB, 0x81C2C92E, 0x92722C85,
     0xA2BFE8A1, 0xA81A664B, 0xC24B8B70, 0xC76C51A3, 0xD192E819, 0xD6990624, 0xF40E3585, 0x106AA070,
     0x19A4C116, 0x1E376C08, 0x2748774C, 0x34B0BCB5, 0x391C0CB3, 0x4ED8AA4A, 0x5B9CCA4F, 0x682E6FF3,
     0x748F82EE, 0x78A5636F, 0x84C87814, 0x8CC70208, 0x90BEFFFA, 0xA4506CEB, 0xBEF9A3F7, 0xC67178F2]"

type_synonym hash8 = "u32 \<times> u32 \<times> u32 \<times> u32 \<times> u32 \<times> u32 \<times> u32 \<times> u32"

definition H256 :: hash8 where
  "H256 = (0x6A09E667, 0xBB67AE85, 0x3C6EF372, 0xA54FF53A,
           0x510E527F, 0x9B05688C, 0x1F83D9AB, 0x5BE0CD19)"

text \<open>The message length in bits, as eight bytes, most significant first.\<close>

definition length_bytes :: "nat \<Rightarrow> byte list" where
  "length_bytes n =
     (let L = (word_of_nat n :: 64 word) * 8
      in [ucast (drop_bit 56 L), ucast (drop_bit 48 L), ucast (drop_bit 40 L), ucast (drop_bit 32 L),
          ucast (drop_bit 24 L), ucast (drop_bit 16 L), ucast (drop_bit 8 L), ucast L])"

text \<open>Padding to a multiple of 64 bytes: the byte 0x80, zero bytes, the length.\<close>

definition sha_pad :: "byte list \<Rightarrow> byte list" where
  "sha_pad m = m @ [0x80] @ replicate ((119 - length m mod 64) mod 64) 0 @ length_bytes (length m)"

fun be_words :: "byte list \<Rightarrow> u32 list" where
  "be_words (a # b # c # d # rest) =
     (push_bit 24 (ucast a) OR push_bit 16 (ucast b) OR push_bit 8 (ucast c) OR ucast d) # be_words rest"
| "be_words _ = []"

definition word_bytes :: "u32 \<Rightarrow> byte list" where
  "word_bytes x = [ucast (drop_bit 24 x), ucast (drop_bit 16 x), ucast (drop_bit 8 x), ucast x]"

text \<open>The message schedule: \<open>extend 48\<close> grows the 16 words of a block to 64.\<close>

fun extend :: "nat \<Rightarrow> u32 list \<Rightarrow> u32 list" where
  "extend 0 w = w"
| "extend (Suc n) w =
     extend n (w @ [sigma1 (w ! (length w - 2)) + w ! (length w - 7) +
                    sigma0 (w ! (length w - 15)) + w ! (length w - 16)])"

fun round256 :: "hash8 \<Rightarrow> u32 \<times> u32 \<Rightarrow> hash8" where
  "round256 (a, b, c, d, e, f, g, h) (k, w) =
     (let T1 = h + Sigma1 e + Ch e f g + k + w;
          T2 = Sigma0 a + Maj a b c
      in (T1 + T2, a, b, c, d + T1, e, f, g))"

fun add8 :: "hash8 \<Rightarrow> hash8 \<Rightarrow> hash8" where
  "add8 (a, b, c, d, e, f, g, h) (a', b', c', d', e', f', g', h') =
     (a + a', b + b', c + c', d + d', e + e', f + f', g + g', h + h')"

definition compress :: "hash8 \<Rightarrow> u32 list \<Rightarrow> hash8" where
  "compress H block = add8 H (foldl round256 H (zip K256 (extend 48 block)))"

function process :: "hash8 \<Rightarrow> u32 list \<Rightarrow> hash8" where
  "process H ws = (if ws = [] then H else process (compress H (take 16 ws)) (drop 16 ws))"
  by pat_completeness auto
termination
  by (relation "measure (\<lambda>(H, ws). length ws)") auto

fun digest_bytes :: "hash8 \<Rightarrow> byte list" where
  "digest_bytes (a, b, c, d, e, f, g, h) =
     word_bytes a @ word_bytes b @ word_bytes c @ word_bytes d @
     word_bytes e @ word_bytes f @ word_bytes g @ word_bytes h"

definition sha256 :: "byte list \<Rightarrow> byte list" where
  "sha256 m = digest_bytes (process H256 (be_words (sha_pad m)))"

section \<open>The session, the platform and the world\<close>

text \<open>The session data the three handlers read and write (\<^verbatim>\<open>session.data\<close>): each field
  is a value or \<^verbatim>\<open>undefined\<close>.\<close>

record session_data =
  userId :: "nat option"
  state_value :: "string option"
  code_verifier :: "string option"

definition no_session :: session_data where
  "no_session = \<lparr>userId = None, state_value = None, code_verifier = None\<rparr>"

record user =
  user_id :: nat
  username :: string

text \<open>An exception value: what a rejected promise or a \<^verbatim>\<open>throw\<close> carries into the
  \<^verbatim>\<open>catch\<close> block.\<close>

datatype error = Error string | TypeError string

text \<open>The parsed body of the token response, as \<^verbatim>\<open>tokenResp.json()\<close> yields it.\<close>

datatype json = JNull | JBool bool | JNum int | JStr string | JArr "json list" | JObj "(string \<times> json) list"

record request =
  req_url :: string
  req_method :: string
  req_headers :: "(string \<times> string) list"
  req_body :: string

text \<open>A response of \<^verbatim>\<open>fetch\<close>: its status, and what \<^verbatim>\<open>.json()\<close> does on its body
  (a syntax error when the body is not JSON).\<close>

record response =
  resp_status :: nat
  resp_json :: "error + json"

text \<open>What an action hands back to the router: \<^verbatim>\<open>undefined\<close>, a \<^verbatim>\<open>Response\<close> with a
  status and a \<^verbatim>\<open>Location\<close> header, an error value, or the user's public fields.\<close>

datatype js_result = Undefined | Response nat string | Failure error | UserInfo user

datatype outcome = Return js_result | Throw js_result

text \<open>The router's \<^verbatim>\<open>redirect(url)\<close> builds a 302 response and returns it. It neither
  throws nor navigates: the caller has to \<^verbatim>\<open>return\<close> or \<^verbatim>\<open>throw\<close> the response for the
  router to act on it, as \<^verbatim>\<open>getUser\<close>, \<^verbatim>\<open>passkeyAuth\<close> and \<^verbatim>\<open>logout\<close> do.\<close>

definition redirect :: "string \<Rightarrow> js_result" where
  "redirect location = Response 302 location"

fun is_redirect :: "outcome \<Rightarrow> bool" where
  "is_redirect (Return (Response st location)) = True"
| "is_redirect (Throw (Response st location)) = True"
| "is_redirect _ = False"

text \<open>Everything outside the handlers is a parameter: the process environment, the random
  source (the \<open>k\<close>-th buffer \<^verbatim>\<open>randomBytes(32)\<close> hands out), whether the session store
  rejects a lookup or an update, what the provider answers to a request, and the user
  table.\<close>

record platform =
  process_env :: "string \<Rightarrow> string option"
  random_source :: "nat \<Rightarrow> byte list"
  getSession_fails :: "error option"
  update_fails :: "error option"
  fetch_impl :: "request \<Rightarrow> error + response"
  db_user_findUnique :: "nat \<Rightarrow> error + user option"

datatype logged = LogStr string | LogJson json

datatype event =
    GetSession
  | SessionUpdate
  | SessionLogout
  | Fetch request
  | ConsoleLog logged

text \<open>The state the handlers act on: the persisted session of the requesting user agent,
  the calls made so far (oldest first), and how many random buffers were drawn.\<close>

record world =
  session :: session_data
  trace :: "event list"
  draws :: nat

definition emit :: "event \<Rightarrow> world \<Rightarrow> world" where
  "emit ev w = w\<lparr>trace := trace w @ [ev]\<rparr>"

definition console_log :: "logged \<Rightarrow> world \<Rightarrow> world" where
  "console_log x w = emit (ConsoleLog x) w"

definition fetches :: "world \<Rightarrow> request list" where
  "fetches w = concat (map (\<lambda>ev. case ev of Fetch r \<Rightarrow> [r] | _ \<Rightarrow> []) (trace w))"

definition session_lookups :: "world \<Rightarrow> nat" where
  "session_lookups w = length (filter (\<lambda>ev. ev = GetSession) (trace w))"

definition randomBytes :: "platform \<Rightarrow> world \<Rightarrow> byte list \<times> world" where
  "randomBytes p w = (random_source p (draws w), w\<lparr>draws := Suc (draws w)\<rparr>)"

text \<open>\<^verbatim>\<open>await getSession()\<close> and the read of \<^verbatim>\<open>session.data\<close>: the lookup rejects,
  or yields the session's data.\<close>

definition getSession :: "platform \<Rightarrow> world \<Rightarrow> (error + session_data) \<times> world" where
  "getSession p w =
     (case getSession_fails p of
        Some err \<Rightarrow> (Inl err, emit GetSession w)
      | None \<Rightarrow> (Inr (session w), emit GetSession w))"

text \<open>Modelled from the spec: \<^verbatim>\<open>session.update(mutator)\<close> on the session that
  \<^verbatim>\<open>getSession\<close> of \<^verbatim>\<open>./server\<close> yields; the source of that module is missing. The
  spec's session interface calls the update an atomic field merge: either it is rejected
  and the persisted session stays as it was, or the mutator's assignments are all
  applied.\<close>

definition update_session ::
  "platform \<Rightarrow> (session_data \<Rightarrow> session_data) \<Rightarrow> world \<Rightarrow> (error + unit) \<times> world" where
  "update_session p mutator w =
     (case update_fails p of
        Some err \<Rightarrow> (Inl err, emit SessionUpdate w)
      | None \<Rightarrow> (Inr (), emit SessionUpdate (w\<lparr>session := mutator (session w)\<rparr>)))"

text \<open>Modelled from the spec: \<^verbatim>\<open>logout\<close> of \<^verbatim>\<open>./server\<close> (imported as
  \<^verbatim>\<open>logoutSession\<close>); the source of that module is missing. The spec's session
  interface has \<^verbatim>\<open>destroy() -> void\<close>, after which the session holds nothing.\<close>

definition logoutSession :: "world \<Rightarrow> world" where
  "logoutSession w = emit SessionLogout (w\<lparr>session := no_session\<rparr>)"

definition do_fetch :: "platform \<Rightarrow> request \<Rightarrow> world \<Rightarrow> (error + response) \<times> world" where
  "do_fetch p r w = (fetch_impl p r, emit (Fetch r) w)"

text \<open>\<^verbatim>\<open>process.env.X || ""\<close>, and a value inside a template literal, where
  \<^verbatim>\<open>undefined\<close> prints as the text \<^verbatim>\<open>undefined\<close>.\<close>

definition or_empty :: "string option \<Rightarrow> string" where
  "or_empty v = (case v of None \<Rightarrow> [] | Some s \<Rightarrow> s)"

definition interpolate :: "string option \<Rightarrow> string" where
  "interpolate v = (case v of None \<Rightarrow> ''undefined'' | Some s \<Rightarrow> s)"

definition provider_app :: "platform \<Rightarrow> string" where
  "provider_app p =
     ''https://auth-us.beyondidentity.com/v1/tenants/'' @ interpolate (process_env p ''BI_TENANT_ID'') @
     ''/realms/'' @ interpolate (process_env p ''BI_REALM_ID'') @
     ''/applications/'' @ interpolate (process_env p ''BI_APPLICATION_ID'')"

section \<open>The handlers\<close>

subsection \<open>getUser\<close>

text \<open>Each handler is the asynchronous function the source hands to \<^verbatim>\<open>action\<close> or
  \<^verbatim>\<open>cache\<close>: it takes the platform and the world and yields what it returns or throws,
  with the world after it. The router's wrappers (submission bookkeeping, the cache of
  \<^verbatim>\<open>getUser\<close> under the key \<^verbatim>\<open>user\<close>) are not part of the model.\<close>

text \<open>The body of the \<^verbatim>\<open>try\<close> block of \<^verbatim>\<open>getUser\<close>; \<open>Inl\<close> is what lands in
  \<^verbatim>\<open>catch\<close>.\<close>

definition getUser_try :: "platform \<Rightarrow> world \<Rightarrow> (error + user) \<times> world" where
  "getUser_try p w =
     (case getSession p w of
        (Inl err, w1) \<Rightarrow> (Inl err, w1)
      | (Inr sess, w1) \<Rightarrow>
          (case userId sess of
             None \<Rightarrow> (Inl (Error ''User not found''), w1)
           | Some uid \<Rightarrow>
               (case db_user_findUnique p uid of
                  Inl err \<Rightarrow> (Inl err, w1)
                | Inr None \<Rightarrow> (Inl (Error ''User not found''), w1)
                | Inr (Some u) \<Rightarrow> (Inr \<lparr>user_id = user_id u, username = username u\<rparr>, w1))))"

definition getUser :: "platform \<Rightarrow> world \<Rightarrow> outcome \<times> world" where
  "getUser p w =
     (case getUser_try p w of
        (Inr u, w1) \<Rightarrow> (Return (UserInfo u), w1)
      | (Inl err, w1) \<Rightarrow> (Throw (redirect ''/login''), logoutSession w1))"

subsection \<open>passkeyAuth\<close>

text \<open>The PKCE challenge of a verifier, lines 55 to 58.\<close>

definition codeChallenge :: "string \<Rightarrow> string" where
  "codeChallenge codeVerifier = base64url (sha256 (utf8 codeVerifier))"

definition authURI :: "platform \<Rightarrow> string \<Rightarrow> string \<Rightarrow> string" where
  "authURI p randomState challenge =
     provider_app p @ ''/authorize?response_type=code&client_id='' @
     interpolate (process_env p ''BI_CLIENT_ID'') @
     ''&redirect_uri='' @ encodeURI (or_empty (process_env p ''APP_REDIRECT_URI'')) @
     ''&scope=openid&state='' @ randomState @
     ''&code_challenge_method=S256&code_challenge='' @ challenge"

definition passkeyAuth :: "platform \<Rightarrow> world \<Rightarrow> outcome \<times> world" where
  "passkeyAuth p w =
     (let (b1, w1) = randomBytes p w;
          randomState = base64url b1;
          (b2, w2) = randomBytes p w1;
          codeVerifier = base64url b2;
          target = authURI p randomState (codeChallenge codeVerifier)
      in case getSession p w2 of
           (Inl err, w3) \<Rightarrow> (Return (Failure err), w3)
         | (Inr sess, w3) \<Rightarrow>
             (case update_session p
                     (\<lambda>sess. sess\<lparr>state_value := Some randomState, code_verifier := Some codeVerifier\<rparr>) w3 of
                (Inl err, w4) \<Rightarrow> (Return (Failure err), w4)
              | (Inr u, w4) \<Rightarrow> (Return (redirect target), w4)))"

subsection \<open>authExchange\<close>

text \<open>The request of lines 105 to 115.\<close>

definition token_request :: "platform \<Rightarrow> string \<Rightarrow> string option \<Rightarrow> request" where
  "token_request p code codeVerifier =
     (let clientID = or_empty (process_env p ''BI_CLIENT_ID'');
          clientSecret = or_empty (process_env p ''BI_CLIENT_SECRET'');
          redirectURI = encodeURI (or_empty (process_env p ''APP_REDIRECT_URI''))
      in \<lparr>req_url = provider_app p @ ''/token'',
          req_method = ''POST'',
          req_headers =
            [(''Content-Type'', ''application/x-www-form-urlencoded''),
             (''Authorization'', ''Basic '' @ btoa (clientID @ '':'' @ clientSecret))],
          req_body =
            ''grant_type=authorization_code&code='' @ code @
            ''&code_verifier='' @ interpolate codeVerifier @
            ''&redirect_uri='' @ redirectURI\<rparr>)"

text \<open>The destructuring of line 124 throws a \<^verbatim>\<open>TypeError\<close> on \<^verbatim>\<open>null\<close>, and on
  nothing else \<^verbatim>\<open>json()\<close> can yield.\<close>

definition destructure :: "json \<Rightarrow> error + unit" where
  "destructure v =
     (if v = JNull then Inl (TypeError ''Cannot destructure property of null'') else Inr ())"

text \<open>The body of the \<^verbatim>\<open>try\<close> block, lines 87 to 132. On a state mismatch line 92 calls
  \<^verbatim>\<open>redirect("/")\<close> and drops the response it gets, so control goes on to line 97.\<close>

definition authExchange_try :: "platform \<Rightarrow> string \<Rightarrow> string \<Rightarrow> world \<Rightarrow> (error + unit) \<times> world" where
  "authExchange_try p code state w =
     (case getSession p w of
        (Inl err, w1) \<Rightarrow> (Inl err, w1)
      | (Inr sess, w1) \<Rightarrow>
          (let w2 = (if state_value sess \<noteq> Some state
                     then (let w' = console_log (LogStr ''Session is not in an auth-ready state'') w1;
                               dropped = redirect ''/''
                           in w')
                     else w1);
               codeVerifier = code_verifier sess
           in case do_fetch p (token_request p code codeVerifier) w2 of
                (Inl err, w3) \<Rightarrow> (Inl err, w3)
              | (Inr tokenResp, w3) \<Rightarrow>
                  (case resp_json tokenResp of
                     Inl err \<Rightarrow> (Inl err, w3)
                   | Inr vals \<Rightarrow>
                       (case destructure vals of
                          Inl err \<Rightarrow> (Inl err, w3)
                        | Inr u \<Rightarrow> (Inr (), console_log (LogJson vals) w3)))))"

text \<open>The action: the \<^verbatim>\<open>catch\<close> block returns the error; after the \<^verbatim>\<open>try\<close>, line 138
  calls \<^verbatim>\<open>redirect("/")\<close>, drops the response, and the function ends without a
  \<^verbatim>\<open>return\<close>.\<close>

definition authExchange :: "platform \<Rightarrow> string \<Rightarrow> string \<Rightarrow> world \<Rightarrow> outcome \<times> world" where
  "authExchange p code state w =
     (case authExchange_try p code state w of
        (Inl err, w1) \<Rightarrow> (Return (Failure err), w1)
      | (Inr u, w1) \<Rightarrow> (let dropped = redirect ''/'' in (Return Undefined, w1)))"

subsection \<open>logout\<close>

definition logout :: "world \<Rightarrow> outcome \<times> world" where
  "logout w = (Return (redirect ''/login''), logoutSession w)"

subsection \<open>The callback page\<close>

text \<open>The query parameters of the callback URL, each present or not, and JavaScript's
  \<^verbatim>\<open>!v\<close> on such a value: true for \<^verbatim>\<open>undefined\<close> and for the empty string.\<close>

record search_params =
  param_code :: "string option"
  param_state :: "string option"

definition falsy :: "string option \<Rightarrow> bool" where
  "falsy v = (case v of None \<Rightarrow> True | Some s \<Rightarrow> s = [])"

text \<open>The \<^verbatim>\<open>Login\<close> component up to its mount: the check of lines 14 to 17 (which again
  drops the response of \<^verbatim>\<open>redirect("/")\<close>), then the \<^verbatim>\<open>onMount\<close> callback, which runs
  the action with \<^verbatim>\<open>params.code || ""\<close> and \<^verbatim>\<open>params.state || ""\<close>. The result is the
  action's outcome; the markup the component renders carries no data, and its
  \<^verbatim>\<open>onLoad\<close> handler (the same call once more, should the element ever fire a load
  event) is left out.\<close>

definition Login :: "platform \<Rightarrow> search_params \<Rightarrow> world \<Rightarrow> outcome \<times> world" where
  "Login p params w =
     (let w1 = (if falsy (param_code params) \<or> falsy (param_state params)
                then (let w' = console_log
                                 (LogStr ''The authentication response was malformed, returning the user to the home page'') w;
                          dropped = redirect ''/''
                      in w')
                else w)
      in authExchange p (or_empty (param_code params)) (or_empty (param_state params)) w1)"

section \<open>Properties of session data and outcomes\<close>

text \<open>The pairing invariant of the handshake fields: both present or both absent.\<close>

definition paired :: "session_data \<Rightarrow> bool" where
  "paired d = ((state_value d = None) = (code_verifier d = None))"

text \<open>An outcome that carries an error value to the caller.\<close>

fun is_failure :: "outcome \<Rightarrow> bool" where
  "is_failure (Return (Failure e)) = True"
| "is_failure (Throw (Failure e)) = True"
| "is_failure _ = False"

section \<open>A concrete deployment\<close>

text \<open>The scenario of the handshake used for evaluation: a configured application, a
  session in which an initiation has stored the state \<^verbatim>\<open>S1\<close> and the verifier \<^verbatim>\<open>V1\<close>,
  and a provider that answers every token request with status 200 and an access token.\<close>

definition env0 :: "string \<Rightarrow> string option" where
  "env0 = map_of
     [(''BI_TENANT_ID'', ''t1''), (''BI_REALM_ID'', ''r1''), (''BI_APPLICATION_ID'', ''a1''),
      (''BI_CLIENT_ID'', ''cid''), (''BI_CLIENT_SECRET'', ''sec''),
      (''APP_REDIRECT_URI'', ''http://localhost:3000/login'')]"

definition token_ok :: response where
  "token_ok = \<lparr>resp_status = 200, resp_json = Inr (JObj [(''access_token'', JStr ''T'')])\<rparr>"

definition p0 :: platform where
  "p0 = \<lparr>process_env = env0, random_source = (\<lambda>k. replicate 32 (of_nat k)),
          getSession_fails = None, update_fails = None,
          fetch_impl = (\<lambda>r. Inr token_ok), db_user_findUnique = (\<lambda>i. Inr None)\<rparr>"

definition pending :: session_data where
  "pending = \<lparr>userId = None, state_value = Some ''S1'', code_verifier = Some ''V1''\<rparr>"

definition w_pending :: world where
  "w_pending = \<lparr>session = pending, trace = [], draws = 0\<rparr>"

text \<open>The same deployment with the provider unreachable, with the provider refusing the
  code (status 400 and a JSON error body), and with a session store that rejects updates.\<close>

definition p_down :: platform where
  "p_down = p0\<lparr>fetch_impl := (\<lambda>r. Inl (TypeError ''fetch failed''))\<rparr>"

definition token_denied :: response where
  "token_denied = \<lparr>resp_status = 400, resp_json = Inr (JObj [(''error'', JStr ''invalid_grant'')])\<rparr>"

definition p_denied :: platform where
  "p_denied = p0\<lparr>fetch_impl := (\<lambda>r. Inr token_denied)\<rparr>"

definition p_readonly :: platform where
  "p_readonly = p0\<lparr>update_fails := Some (Error ''session store unavailable'')\<rparr>"

text \<open>The request the scenario's callback with the code \<^verbatim>\<open>ABC\<close> leads to.\<close>

definition request_ABC :: request where
  "request_ABC =
     \<lparr>req_url = ''https://auth-us.beyondidentity.com/v1/tenants/t1/realms/r1/applications/a1/token'',
      req_method = ''POST'',
      req_headers =
        [(''Content-Type'', ''application/x-www-form-urlencoded''),
         (''Authorization'', ''Basic Y2lkOnNlYw=='')],
      req_body =
        ''grant_type=authorization_code&code=ABC&code_verifier=V1&redirect_uri=http://localhost:3000/login''\<rparr>"

text \<open>Further variations: a session store that rejects lookups, and a provider whose
  answer is not JSON.\<close>

definition p_nostore :: platform where
  "p_nostore = p0\<lparr>getSession_fails := Some (Error ''session store unavailable'')\<rparr>"

definition token_garbled :: response where
  "token_garbled = \<lparr>resp_status = 200, resp_json = Inl (Error ''Unexpected token < in JSON'')\<rparr>"

definition p_garbled :: platform where
  "p_garbled = p0\<lparr>fetch_impl := (\<lambda>r. Inr token_garbled)\<rparr>"

text \<open>A session that names user 7, and a user table that has that user.\<close>

definition stale :: session_data where
  "stale = \<lparr>userId = Some 7, state_value = None, code_verifier = None\<rparr>"

definition w_stale :: world where
  "w_stale = \<lparr>session = stale, trace = [], draws = 0\<rparr>"

definition alice :: user where
  "alice = \<lparr>user_id = 7, username = ''alice''\<rparr>"

definition p_alice :: platform where
  "p_alice = p0\<lparr>db_user_findUnique := (\<lambda>i. if i = 7 then Inr (Some alice) else Inr None)\<rparr>"

text \<open>A callback URL that carries a state but no code.\<close>

definition no_code :: search_params where
  "no_code = \<lparr>param_code = None, param_state = Some ''S1''\<rparr>"

section \<open>How the handlers act on the world\<close>

lemma session_emit [simp]: "session (emit ev w) = session w"
  by (simp add: emit_def)

lemma session_console_log [simp]: "session (console_log x w) = session w"
  by (simp add: console_log_def)

lemma trace_emit [simp]: "trace (emit ev w) = trace w @ [ev]"
  by (simp add: emit_def)

lemma fetches_emit_Fetch [simp]: "fetches (emit (Fetch r) w) = fetches w @ [r]"
  by (simp add: fetches_def)

lemma fetches_emit_GetSession [simp]: "fetches (emit GetSession w) = fetches w"
  by (simp add: fetches_def)

lemma fetches_console_log [simp]: "fetches (console_log x w) = fetches w"
  by (simp add: fetches_def console_log_def)

subsection \<open>authExchange, stage by stage\<close>

lemma authExchange_try_session: "session (snd (authExchange_try p code state w)) = session w"
  by (simp add: authExchange_try_def getSession_def do_fetch_def Let_def
      split: option.split sum.split)

lemma authExchange_try_fetches:
  "fetches (snd (authExchange_try p code state w)) =
     fetches w @ (case getSession_fails p of
                    None \<Rightarrow> [token_request p code (code_verifier (session w))]
                  | Some err \<Rightarrow> [])"
  by (simp add: authExchange_try_def getSession_def do_fetch_def Let_def
      split: option.split sum.split)

text \<open>The comparison of the two states does not show in the requests sent: the token
  endpoint is called whenever the session lookup succeeds.\<close>

lemma authExchange_fetches:
  "fetches (snd (authExchange p code state w)) =
     fetches w @ (case getSession_fails p of
                    None \<Rightarrow> [token_request p code (code_verifier (session w))]
                  | Some err \<Rightarrow> [])"
  using authExchange_try_fetches [of p code state w]
  by (simp add: authExchange_def Let_def case_prod_beta split: sum.split)

lemma authExchange_try_result:
  "fst (authExchange_try p code state w) =
     (case getSession_fails p of
        Some err \<Rightarrow> Inl err
      | None \<Rightarrow>
          (case fetch_impl p (token_request p code (code_verifier (session w))) of
             Inl err \<Rightarrow> Inl err
           | Inr tokenResp \<Rightarrow>
               (case resp_json tokenResp of
                  Inl err \<Rightarrow> Inl err
                | Inr vals \<Rightarrow> destructure vals)))"
  by (simp add: authExchange_try_def getSession_def do_fetch_def Let_def
      split: option.split sum.split)

lemma authExchange_result:
  "fst (authExchange p code state w) =
     (case fst (authExchange_try p code state w) of
        Inl err \<Rightarrow> Return (Failure err)
      | Inr u \<Rightarrow> Return Undefined)"
  by (simp add: authExchange_def Let_def case_prod_beta split: sum.split)

lemma Login_fetches:
  "fetches (snd (Login p params w)) =
     fetches w @ (case getSession_fails p of
                    None \<Rightarrow> [token_request p (or_empty (param_code params)) (code_verifier (session w))]
                  | Some err \<Rightarrow> [])"
  by (simp add: Login_def Let_def authExchange_fetches split: option.split)

subsection \<open>The deployment's facts\<close>

lemma getSession_fixtures:
  "getSession_fails p0 = None" "getSession_fails p_down = None"
  "getSession_fails p_garbled = None" "getSession_fails p_denied = None"
  "getSession_fails p_readonly = None"
  by (simp_all add: p0_def p_down_def p_garbled_def p_denied_def p_readonly_def)

lemma request_fixtures:
  "token_request p0 ''ABC'' (code_verifier (session w_pending)) = request_ABC"
  "token_request p_down ''ABC'' (code_verifier (session w_pending)) = request_ABC"
  "token_request p_garbled ''ABC'' (code_verifier (session w_pending)) = request_ABC"
  "token_request p_denied ''ABC'' (code_verifier (session w_pending)) = request_ABC"
  by code_simp+

lemma fetch_fixtures:
  "fetch_impl p0 r = Inr token_ok"
  "fetch_impl p_down r = Inl (TypeError ''fetch failed'')"
  "fetch_impl p_garbled r = Inr token_garbled"
  "fetch_impl p_denied r = Inr token_denied"
  by (simp_all add: p0_def p_down_def p_garbled_def p_denied_def)

lemma fetches_w_pending: "fetches w_pending = []"
  by (simp add: fetches_def w_pending_def)

section \<open>Initiation\<close>

subsection \<open>passkeyAuth, case by case\<close>

lemma passkeyAuth_ok:
  "getSession_fails p = None \<Longrightarrow> update_fails p = None \<Longrightarrow>
   passkeyAuth p w =
     (Return (redirect (authURI p (base64url (random_source p (draws w)))
                          (codeChallenge (base64url (random_source p (Suc (draws w))))))),
      emit SessionUpdate (emit GetSession
        (w\<lparr>draws := Suc (Suc (draws w))\<rparr>)
        \<lparr>session := (session w)\<lparr>state_value := Some (base64url (random_source p (draws w))),
                                code_verifier := Some (base64url (random_source p (Suc (draws w))))\<rparr>\<rparr>))"
  by (simp add: passkeyAuth_def randomBytes_def getSession_def update_session_def Let_def emit_def)

lemma passkeyAuth_session_ok:
  "getSession_fails p = None \<Longrightarrow> update_fails p = None \<Longrightarrow>
   session (snd (passkeyAuth p w)) =
     (session w)\<lparr>state_value := Some (base64url (random_source p (draws w))),
                 code_verifier := Some (base64url (random_source p (Suc (draws w))))\<rparr>"
  by (simp add: passkeyAuth_ok)

lemma passkeyAuth_result_ok:
  "getSession_fails p = None \<Longrightarrow> update_fails p = None \<Longrightarrow>
   fst (passkeyAuth p w) =
     Return (redirect (authURI p (base64url (random_source p (draws w)))
                         (codeChallenge (base64url (random_source p (Suc (draws w)))))))"
  by (simp add: passkeyAuth_ok)

lemma passkeyAuth_lookup_fails:
  "getSession_fails p = Some e \<Longrightarrow>
   fst (passkeyAuth p w) = Return (Failure e) \<and> session (snd (passkeyAuth p w)) = session w"
  by (simp add: passkeyAuth_def randomBytes_def getSession_def Let_def)

lemma passkeyAuth_update_fails:
  "getSession_fails p = None \<Longrightarrow> update_fails p = Some e \<Longrightarrow>
   fst (passkeyAuth p w) = Return (Failure e) \<and> session (snd (passkeyAuth p w)) = session w"
  by (simp add: passkeyAuth_def randomBytes_def getSession_def update_session_def Let_def)

lemma passkeyAuth_paired: "paired (session w) \<Longrightarrow> paired (session (snd (passkeyAuth p w)))"
proof (cases "getSession_fails p")
  case (Some e)
  assume "paired (session w)"
  with passkeyAuth_lookup_fails [OF Some, of w] show ?thesis by simp
next
  case None
  assume inv: "paired (session w)"
  show ?thesis
  proof (cases "update_fails p")
    case (Some e)
    with passkeyAuth_update_fails [OF None Some, of w] inv show ?thesis by simp
  next
    case n: None
    show ?thesis by (simp add: passkeyAuth_session_ok [OF None n] paired_def)
  qed
qed

subsection \<open>The other handlers and the session\<close>

lemma getUser_try_session: "session (snd (getUser_try p w)) = session w"
  by (simp add: getUser_try_def getSession_def split: option.split sum.split)

lemma getUser_session:
  "session (snd (getUser p w)) =
     (case fst (getUser_try p w) of Inl e \<Rightarrow> no_session | Inr u \<Rightarrow> session w)"
  using getUser_try_session [of p w]
  by (simp add: getUser_def case_prod_beta logoutSession_def split: sum.split)

lemma paired_no_session: "paired no_session"
  by (simp add: paired_def no_session_def)

lemma getUser_paired: "paired (session w) \<Longrightarrow> paired (session (snd (getUser p w)))"
  by (simp add: getUser_session paired_no_session split: sum.split)

lemma logout_paired: "paired (session (snd (logout w)))"
  by (simp add: logout_def logoutSession_def paired_no_session)

lemma authExchange_session: "session (snd (authExchange p code state w)) = session w"
  using authExchange_try_session [of p code state w]
  by (simp add: authExchange_def Let_def case_prod_beta split: sum.split)

lemma Login_session: "session (snd (Login p params w)) = session w"
  by (simp add: Login_def Let_def authExchange_session)

lemma nonce_fixtures:
  "base64url (random_source p0 (draws w_pending)) = ''AAAAAAAAAAAAAAAAAAAAAAAAAAAAAAAAAAAAAAAAAAA''"
  "base64url (random_source p0 (Suc (draws w_pending))) = ''AQEBAQEBAQEBAQEBAQEBAQEBAQEBAQEBAQEBAQEBAQE''"
  "base64url (random_source p_readonly (draws w_pending)) = ''AAAAAAAAAAAAAAAAAAAAAAAAAAAAAAAAAAAAAAAAAAA''"
  by code_simp+

lemma update_fixtures:
  "update_fails p0 = None" "update_fails p_readonly = Some (Error ''session store unavailable'')"
  "getSession_fails p_nostore = Some (Error ''session store unavailable'')"
  by (simp_all add: p0_def p_readonly_def p_nostore_def)

lemma paired_pending: "paired (session w_pending)"
  by (simp add: w_pending_def pending_def paired_def)

subsection \<open>The pairing invariant\<close>

text \<open>C6. Every handler keeps \<open>state_value\<close> and \<open>code_verifier\<close> present together or
  absent together. \<^verbatim>\<open>passkeyAuth\<close> writes both in its one session update, next to a
  \<open>userId\<close> it leaves alone, and then redirects; when the update (or the lookup before it)
  is rejected, the session stays as it was and the caller gets the error value, not a
  redirect to the provider.\<close>

theorem handshake_fields_stay_paired:
  "(paired (session w) \<longrightarrow>
      paired (session (snd (passkeyAuth p w))) \<and>
      paired (session (snd (authExchange p code state w))) \<and>
      paired (session (snd (Login p params w))) \<and>
      paired (session (snd (getUser p w))) \<and>
      paired (session (snd (logout w)))) \<and>
   (getSession_fails p = None \<and> update_fails p = None \<longrightarrow>
      state_value (session (snd (passkeyAuth p w))) = Some (base64url (random_source p (draws w))) \<and>
      code_verifier (session (snd (passkeyAuth p w))) =
        Some (base64url (random_source p (Suc (draws w)))) \<and>
      userId (session (snd (passkeyAuth p w))) = userId (session w) \<and>
      is_redirect (fst (passkeyAuth p w))) \<and>
   (getSession_fails p = None \<and> update_fails p = Some e \<longrightarrow>
      session (snd (passkeyAuth p w)) = session w \<and>
      fst (passkeyAuth p w) = Return (Failure e) \<and>
      \<not> is_redirect (fst (passkeyAuth p w))) \<and>
   (getSession_fails p = Some e \<longrightarrow>
      session (snd (passkeyAuth p w)) = session w \<and>
      fst (passkeyAuth p w) = Return (Failure e) \<and>
      \<not> is_redirect (fst (passkeyAuth p w)))"
proof (intro conjI impI)
  assume "paired (session w)"
  then show "paired (session (snd (passkeyAuth p w)))"
    by (rule passkeyAuth_paired)
next
  assume "paired (session w)"
  then show "paired (session (snd (authExchange p code state w)))"
    by (simp add: authExchange_session)
next
  assume "paired (session w)"
  then show "paired (session (snd (Login p params w)))"
    by (simp add: Login_session)
next
  assume "paired (session w)"
  then show "paired (session (snd (getUser p w)))"
    by (rule getUser_paired)
next
  show "paired (session (snd (logout w)))"
    by (rule logout_paired)
next
  assume "getSession_fails p = None \<and> update_fails p = None"
  then show "state_value (session (snd (passkeyAuth p w))) = Some (base64url (random_source p (draws w)))"
    by (simp add: passkeyAuth_session_ok)
next
  assume "getSession_fails p = None \<and> update_fails p = None"
  then show "code_verifier (session (snd (passkeyAuth p w))) =
        Some (base64url (random_source p (Suc (draws w))))"
    by (simp add: passkeyAuth_session_ok)
next
  assume "getSession_fails p = None \<and> update_fails p = None"
  then show "userId (session (snd (passkeyAuth p w))) = userId (session w)"
    by (simp add: passkeyAuth_session_ok)
next
  assume "getSession_fails p = None \<and> update_fails p = None"
  then show "is_redirect (fst (passkeyAuth p w))"
    by (simp add: passkeyAuth_result_ok redirect_def)
next
  assume a: "getSession_fails p = None \<and> update_fails p = Some e"
  then show "session (snd (passkeyAuth p w)) = session w"
    using passkeyAuth_update_fails [of p e w] by simp
  from a show "fst (passkeyAuth p w) = Return (Failure e)"
    using passkeyAuth_update_fails [of p e w] by simp
  from a show "\<not> is_redirect (fst (passkeyAuth p w))"
    using passkeyAuth_update_fails [of p e w] by simp
next
  assume a: "getSession_fails p = Some e"
  then show "session (snd (passkeyAuth p w)) = session w"
    using passkeyAuth_lookup_fails [of p e w] by simp
  from a show "fst (passkeyAuth p w) = Return (Failure e)"
    using passkeyAuth_lookup_fails [of p e w] by simp
  from a show "\<not> is_redirect (fst (passkeyAuth p w))"
    using passkeyAuth_lookup_fails [of p e w] by simp
qed

text \<open>C6, witness: an initiation on the pending session, with a store that takes the
  update, one that rejects it and one that rejects the lookup.\<close>

theorem handshake_fields_stay_paired_witness:
  "paired (session w_pending) \<and>
   paired (session (snd (passkeyAuth p0 w_pending))) \<and>
   state_value (session (snd (passkeyAuth p0 w_pending))) =
     Some ''AAAAAAAAAAAAAAAAAAAAAAAAAAAAAAAAAAAAAAAAAAA'' \<and>
   code_verifier (session (snd (passkeyAuth p0 w_pending))) =
     Some ''AQEBAQEBAQEBAQEBAQEBAQEBAQEBAQEBAQEBAQEBAQE'' \<and>
   is_redirect (fst (passkeyAuth p0 w_pending)) \<and>
   session (snd (passkeyAuth p_readonly w_pending)) = session w_pending \<and>
   fst (passkeyAuth p_readonly w_pending) = Return (Failure (Error ''session store unavailable'')) \<and>
   session (snd (passkeyAuth p_nostore w_pending)) = session w_pending \<and>
   fst (passkeyAuth p_nostore w_pending) = Return (Failure (Error ''session store unavailable''))"
  using handshake_fields_stay_paired [where p = p0 and w = w_pending]
        handshake_fields_stay_paired [where p = p_readonly and w = w_pending and e = "Error ''session store unavailable''"]
        handshake_fields_stay_paired [where p = p_nostore and w = w_pending and e = "Error ''session store unavailable''"]
  by (simp add: getSession_fixtures update_fixtures nonce_fixtures paired_pending)

section \<open>The PKCE challenge\<close>





subsection \<open>The encoding loses nothing\<close>









subsection \<open>Length and alphabet\<close>







subsection \<open>Reference values\<close>







subsection \<open>The challenge of a verifier\<close>






section \<open>Callback validation\<close>

text \<open>C1. A callback whose state differs from the session's stored \<open>state_value\<close> is
  meant to be rejected before the token endpoint is contacted. Evaluated on the pending
  session (stored state \<^verbatim>\<open>S1\<close>) with the callback state \<^verbatim>\<open>WRONG\<close>, the action logs the
  mismatch, drops the response of \<^verbatim>\<open>redirect("/")\<close> and goes on: the token request is
  sent, with the session's verifier in it, and the action ends like a successful
  exchange.\<close>

theorem mismatched_state_still_reaches_token_endpoint:
  "state_value (session w_pending) = Some ''S1'' \<and>
   fetches (snd (authExchange p0 ''ABC'' ''WRONG'' w_pending)) = [request_ABC] \<and>
   trace (snd (authExchange p0 ''ABC'' ''WRONG'' w_pending)) =
     [GetSession, ConsoleLog (LogStr ''Session is not in an auth-ready state''), Fetch request_ABC,
      ConsoleLog (LogJson (JObj [(''access_token'', JStr ''T'')]))] \<and>
   fst (authExchange p0 ''ABC'' ''WRONG'' w_pending) = Return Undefined"
  by code_simp

text \<open>C3. A callback that lacks \<open>code\<close> or \<open>state\<close> is meant to go home without a
  session lookup or a network call. Evaluated on a callback without a code, the page logs
  that the response was malformed, drops the response of \<^verbatim>\<open>redirect("/")\<close>, and on mount
  runs the exchange with the empty code: the session is looked up once, one token request
  is sent, and nothing redirects.\<close>

theorem malformed_callback_still_runs_exchange:
  "falsy (param_code no_code) \<and>
   session_lookups (snd (Login p0 no_code w_pending)) = 1 \<and>
   fetches (snd (Login p0 no_code w_pending)) = [request_ABC\<lparr>req_body :=
     ''grant_type=authorization_code&code=&code_verifier=V1&redirect_uri=http://localhost:3000/login''\<rparr>] \<and>
   fst (Login p0 no_code w_pending) = Return Undefined"
  by code_simp

section \<open>The exchange\<close>

text \<open>C2. After a successful token exchange the session is meant to hold a resolved
  \<open>userId\<close>, with \<open>state_value\<close> and \<open>code_verifier\<close> cleared. Evaluated on the pending
  session with the matching state \<^verbatim>\<open>S1\<close> and a provider that answers 200 with an access
  token, the exchange succeeds and the session is what it was: no \<open>userId\<close>, and the
  state and the verifier still stored.\<close>

theorem successful_exchange_leaves_session_unauthenticated:
  "fetch_impl p0 request_ABC = Inr token_ok \<and>
   fetches (snd (authExchange p0 ''ABC'' ''S1'' w_pending)) = [request_ABC] \<and>
   fst (authExchange p0 ''ABC'' ''S1'' w_pending) = Return Undefined \<and>
   session (snd (authExchange p0 ''ABC'' ''S1'' w_pending)) =
     \<lparr>userId = None, state_value = Some ''S1'', code_verifier = Some ''V1''\<rparr>"
  by code_simp

text \<open>C4, as the action behaves. An error caught at any stage of \<^verbatim>\<open>authExchange\<close> (the
  session lookup, the network call, reading the JSON body, destructuring it) is returned
  to the caller as the action's result, the error value itself and not a redirect.\<close>

theorem authExchange_returns_caught_errors:
  "(getSession_fails p = Some e \<longrightarrow> fst (authExchange p code state w) = Return (Failure e)) \<and>
   (getSession_fails p = None \<and>
    fetch_impl p (token_request p code (code_verifier (session w))) = Inl e \<longrightarrow>
      fst (authExchange p code state w) = Return (Failure e)) \<and>
   (getSession_fails p = None \<and>
    fetch_impl p (token_request p code (code_verifier (session w))) = Inr resp \<and>
    resp_json resp = Inl e \<longrightarrow>
      fst (authExchange p code state w) = Return (Failure e)) \<and>
   (getSession_fails p = None \<and>
    fetch_impl p (token_request p code (code_verifier (session w))) = Inr resp \<and>
    resp_json resp = Inr JNull \<longrightarrow>
      is_failure (fst (authExchange p code state w)) \<and>
      \<not> is_redirect (fst (authExchange p code state w)))"
  by (simp add: authExchange_result authExchange_try_result destructure_def)

text \<open>C4, witness: a store that rejects the lookup, an unreachable provider and an answer
  that is not JSON each come back as the error value.\<close>

theorem authExchange_returns_caught_errors_witness:
  "fst (authExchange p_nostore ''ABC'' ''S1'' w_pending) =
     Return (Failure (Error ''session store unavailable'')) \<and>
   fst (authExchange p_down ''ABC'' ''S1'' w_pending) = Return (Failure (TypeError ''fetch failed'')) \<and>
   fst (authExchange p_garbled ''ABC'' ''S1'' w_pending) =
     Return (Failure (Error ''Unexpected token < in JSON''))"
  using authExchange_returns_caught_errors
          [where p = p_nostore and e = "Error ''session store unavailable''"
             and code = "''ABC''" and state = "''S1''" and w = w_pending]
        authExchange_returns_caught_errors
          [where p = p_down and e = "TypeError ''fetch failed''"
             and code = "''ABC''" and state = "''S1''" and w = w_pending]
        authExchange_returns_caught_errors
          [where p = p_garbled and e = "Error ''Unexpected token < in JSON''"
             and code = "''ABC''" and state = "''S1''" and w = w_pending and resp = token_garbled]
  by (simp add: p_nostore_def p_down_def p_garbled_def p0_def token_garbled_def)

text \<open>C4, counterexample to the claim as stated (the result is always a redirect target):
  with the provider unreachable the result is the raw error, not a redirect.\<close>

theorem provider_error_is_not_redirected:
  "fst (authExchange p_down ''ABC'' ''S1'' w_pending) = Return (Failure (TypeError ''fetch failed'')) \<and>
   \<not> is_redirect (fst (authExchange p_down ''ABC'' ''S1'' w_pending))"
  by code_simp

text \<open>C5, as the action behaves. When the session lookup succeeds, exactly one token
  request is sent (nothing is retried); a network error and a body that is not JSON come
  back to the caller as the error value; the response's status is never read, so an answer
  whose body is JSON other than \<^verbatim>\<open>null\<close> ends the action without an error, whatever its
  status.\<close>

theorem exchange_fails_on_network_or_json_error:
  "getSession_fails p = None \<Longrightarrow>
   fetches (snd (authExchange p code state w)) =
     fetches w @ [token_request p code (code_verifier (session w))] \<and>
   (fetch_impl p (token_request p code (code_verifier (session w))) = Inl e \<longrightarrow>
      fst (authExchange p code state w) = Return (Failure e)) \<and>
   (fetch_impl p (token_request p code (code_verifier (session w))) = Inr resp \<and>
    resp_json resp = Inl e \<longrightarrow>
      fst (authExchange p code state w) = Return (Failure e)) \<and>
   (fetch_impl p (token_request p code (code_verifier (session w))) = Inr resp \<and>
    resp_json resp = Inr v \<and> v \<noteq> JNull \<longrightarrow>
      \<not> is_failure (fst (authExchange p code state w)))"
  by (simp add: authExchange_result authExchange_try_result authExchange_fetches destructure_def)

text \<open>C5, witness: the unreachable provider, the answer that is not JSON, and the status
  400 with a JSON body.\<close>

theorem exchange_fails_on_network_or_json_error_witness:
  "getSession_fails p_down = None \<and>
   fetches (snd (authExchange p_down ''ABC'' ''S1'' w_pending)) = [request_ABC] \<and>
   fst (authExchange p_down ''ABC'' ''S1'' w_pending) = Return (Failure (TypeError ''fetch failed'')) \<and>
   fst (authExchange p_garbled ''ABC'' ''S1'' w_pending) =
     Return (Failure (Error ''Unexpected token < in JSON'')) \<and>
   resp_status token_denied = 400 \<and>
   \<not> is_failure (fst (authExchange p_denied ''ABC'' ''S1'' w_pending))"
proof -
  have garbled: "resp_json token_garbled = Inl (Error ''Unexpected token < in JSON'')"
    by (simp add: token_garbled_def)
  have denied: "resp_json token_denied = Inr (JObj [(''error'', JStr ''invalid_grant'')])"
    by (simp add: token_denied_def)
  show ?thesis
    using exchange_fails_on_network_or_json_error
            [OF getSession_fixtures(2), where code = "''ABC''" and state = "''S1''"
               and w = w_pending and e = "TypeError ''fetch failed''"]
          exchange_fails_on_network_or_json_error
            [OF getSession_fixtures(3), where code = "''ABC''" and state = "''S1''"
               and w = w_pending and resp = token_garbled
               and e = "Error ''Unexpected token < in JSON''"]
          exchange_fails_on_network_or_json_error
            [OF getSession_fixtures(4), where code = "''ABC''" and state = "''S1''"
               and w = w_pending and resp = token_denied
               and v = "JObj [(''error'', JStr ''invalid_grant'')]"]
    by (simp add: getSession_fixtures request_fixtures fetch_fixtures fetches_w_pending
        garbled denied token_denied_def)
qed

text \<open>C5, counterexample to the claim as stated (a non-2xx status makes the exchange fail):
  the provider answers the one request with status 400 and a JSON error body, and the
  action ends as on success, with no error value.\<close>

theorem non_2xx_status_is_not_a_failure:
  "resp_status token_denied = 400 \<and>
   fetch_impl p_denied request_ABC = Inr token_denied \<and>
   fetches (snd (authExchange p_denied ''ABC'' ''S1'' w_pending)) = [request_ABC] \<and>
   fst (authExchange p_denied ''ABC'' ''S1'' w_pending) = Return Undefined \<and>
   \<not> is_failure (fst (authExchange p_denied ''ABC'' ''S1'' w_pending))"
  by code_simp

text \<open>C8. When the session lookup succeeds, the exchange sends exactly one request: a POST
  to the application's token endpoint at the provider, with the form content type, HTTP
  Basic authorization over \<open>client_id:client_secret\<close> in padded standard base64, and a body
  of \<open>grant_type=authorization_code\<close>, the callback's code, the session's verifier and
  the configured redirect URI (as \<^verbatim>\<open>encodeURI\<close> leaves it).\<close>

theorem authExchange_issues_one_token_request:
  "getSession_fails p = None \<Longrightarrow> r = token_request p code (code_verifier (session w)) \<Longrightarrow>
   fetches (snd (authExchange p code state w)) = fetches w @ [r] \<and>
   req_method r = ''POST'' \<and>
   req_url r =
     ''https://auth-us.beyondidentity.com/v1/tenants/'' @ interpolate (process_env p ''BI_TENANT_ID'') @
     ''/realms/'' @ interpolate (process_env p ''BI_REALM_ID'') @
     ''/applications/'' @ interpolate (process_env p ''BI_APPLICATION_ID'') @ ''/token'' \<and>
   map_of (req_headers r) ''Content-Type'' = Some ''application/x-www-form-urlencoded'' \<and>
   map_of (req_headers r) ''Authorization'' =
     Some (''Basic '' @
           base64 b64_std True
             (map of_char (or_empty (process_env p ''BI_CLIENT_ID'') @ '':'' @
                           or_empty (process_env p ''BI_CLIENT_SECRET'')))) \<and>
   req_body r =
     ''grant_type=authorization_code&code='' @ code @
     ''&code_verifier='' @ interpolate (code_verifier (session w)) @
     ''&redirect_uri='' @ encodeURI (or_empty (process_env p ''APP_REDIRECT_URI''))"
  by (simp add: authExchange_fetches token_request_def provider_app_def btoa_def)

text \<open>C8, witness: the request of the scenario, character by character.\<close>

theorem authExchange_issues_one_token_request_witness:
  "getSession_fails p0 = None \<and>
   fetches (snd (authExchange p0 ''ABC'' ''S1'' w_pending)) = [request_ABC] \<and>
   req_method request_ABC = ''POST'' \<and>
   req_url request_ABC =
     ''https://auth-us.beyondidentity.com/v1/tenants/t1/realms/r1/applications/a1/token'' \<and>
   map_of (req_headers request_ABC) ''Authorization'' = Some (''Basic '' @ btoa ''cid:sec'') \<and>
   req_body request_ABC =
     ''grant_type=authorization_code&code=ABC&code_verifier=V1&redirect_uri=http://localhost:3000/login''"
proof -
  have auth: "btoa ''cid:sec'' = ''Y2lkOnNlYw==''"
    by code_simp
  show ?thesis
    using authExchange_issues_one_token_request
            [OF getSession_fixtures(1) request_fixtures(1) [symmetric], of "''S1''"]
    by (simp add: getSession_fixtures fetches_w_pending request_ABC_def auth)
qed

section \<open>Resolving the current user\<close>

lemma getUser_try_result:
  "fst (getUser_try p w) =
     (case getSession_fails p of
        Some err \<Rightarrow> Inl err
      | None \<Rightarrow>
          (case userId (session w) of
             None \<Rightarrow> Inl (Error ''User not found'')
           | Some uid \<Rightarrow>
               (case db_user_findUnique p uid of
                  Inl err \<Rightarrow> Inl err
                | Inr None \<Rightarrow> Inl (Error ''User not found'')
                | Inr (Some u) \<Rightarrow> Inr \<lparr>user_id = user_id u, username = username u\<rparr>)))"
  by (simp add: getUser_try_def getSession_def split: option.split sum.split)

lemma getUser_result:
  "fst (getUser p w) =
     (case fst (getUser_try p w) of
        Inl err \<Rightarrow> Throw (redirect ''/login'')
      | Inr u \<Rightarrow> Return (UserInfo u))"
  by (simp add: getUser_def case_prod_beta split: sum.split)

lemma getUser_try_trace: "trace (snd (getUser_try p w)) = trace w @ [GetSession]"
  by (simp add: getUser_try_def getSession_def split: option.split sum.split)

lemma getUser_trace:
  "trace (snd (getUser p w)) =
     (case fst (getUser_try p w) of
        Inl err \<Rightarrow> trace w @ [GetSession, SessionLogout]
      | Inr u \<Rightarrow> trace w @ [GetSession])"
  using getUser_try_trace [of p w]
  by (simp add: getUser_def case_prod_beta logoutSession_def split: sum.split)

text \<open>C7. Whenever \<^verbatim>\<open>getUser\<close> fails to resolve the user (the session lookup is rejected,
  the session has no \<open>userId\<close>, or the user table has no record for it or rejects the
  query), the session is logged out and the caller is thrown the redirect to
  \<^verbatim>\<open>/login\<close>; the only other outcome is the user's record, found under the session's
  \<open>userId\<close>.\<close>

theorem getUser_failure_logs_out:
  "(getSession_fails p \<noteq> None \<or>
    userId (session w) = None \<or>
    (\<exists>uid. userId (session w) = Some uid \<and> (\<forall>u. db_user_findUnique p uid \<noteq> Inr (Some u))) \<longrightarrow>
      fst (getUser p w) = Throw (redirect ''/login'') \<and>
      session (snd (getUser p w)) = no_session \<and>
      trace (snd (getUser p w)) = trace w @ [GetSession, SessionLogout]) \<and>
   (getSession_fails p = None \<and> userId (session w) = Some uid \<and>
    db_user_findUnique p uid = Inr (Some u) \<longrightarrow>
      fst (getUser p w) = Return (UserInfo \<lparr>user_id = user_id u, username = username u\<rparr>) \<and>
      session (snd (getUser p w)) = session w)"
proof (intro conjI impI)
  assume fails: "getSession_fails p \<noteq> None \<or> userId (session w) = None \<or>
    (\<exists>uid. userId (session w) = Some uid \<and> (\<forall>u. db_user_findUnique p uid \<noteq> Inr (Some u)))"
  have "\<exists>err. fst (getUser_try p w) = Inl err"
    using fails by (auto simp: getUser_try_result split: option.split sum.split)
  then obtain err where caught: "fst (getUser_try p w) = Inl err" ..
  show "fst (getUser p w) = Throw (redirect ''/login'')"
    by (simp add: getUser_result caught)
  show "session (snd (getUser p w)) = no_session"
    by (simp add: getUser_session caught)
  show "trace (snd (getUser p w)) = trace w @ [GetSession, SessionLogout]"
    by (simp add: getUser_trace caught)
next
  assume found: "getSession_fails p = None \<and> userId (session w) = Some uid \<and>
    db_user_findUnique p uid = Inr (Some u)"
  then have ok: "fst (getUser_try p w) = Inr \<lparr>user_id = user_id u, username = username u\<rparr>"
    by (simp add: getUser_try_result)
  show "fst (getUser p w) = Return (UserInfo \<lparr>user_id = user_id u, username = username u\<rparr>)"
    by (simp add: getUser_result ok)
  show "session (snd (getUser p w)) = session w"
    by (simp add: getUser_session ok)
qed

text \<open>C7, witness: a session without a \<open>userId\<close>, a session whose user 7 is gone from the
  table, and the same session with the user in the table.\<close>

theorem getUser_failure_logs_out_witness:
  "userId (session w_pending) = None \<and>
   fst (getUser p0 w_pending) = Throw (Response 302 ''/login'') \<and>
   session (snd (getUser p0 w_pending)) = no_session \<and>
   userId (session w_stale) = Some 7 \<and> db_user_findUnique p0 7 = Inr None \<and>
   fst (getUser p0 w_stale) = Throw (Response 302 ''/login'') \<and>
   session (snd (getUser p0 w_stale)) = no_session \<and>
   trace (snd (getUser p0 w_stale)) = [GetSession, SessionLogout] \<and>
   fst (getUser p_alice w_stale) = Return (UserInfo alice) \<and>
   session (snd (getUser p_alice w_stale)) = stale"
  using getUser_failure_logs_out [where p = p0 and w = w_pending]
        getUser_failure_logs_out [where p = p0 and w = w_stale]
        getUser_failure_logs_out [where p = p_alice and w = w_stale and uid = 7 and u = alice]
  by (simp add: p0_def p_alice_def w_pending_def pending_def w_stale_def stale_def alice_def
      redirect_def)

section \<open>The callback never writes the session\<close>

text \<open>C10. In every run of \<^verbatim>\<open>authExchange\<close>, whatever the callback's state, the provider's
  answer or the store's behaviour, the session is left as it was: \<open>userId\<close>,
  \<open>state_value\<close> and \<open>code_verifier\<close> keep the values they had when the callback
  arrived.\<close>

theorem authExchange_leaves_session:
  "session (snd (authExchange p code state w)) = session w"
  using authExchange_try_session [of p code state w]
  by (simp add: authExchange_def Let_def case_prod_beta split: sum.split)

end
